theory Spec2Isabelle
  imports Main
begin

section \<open>Manual clustering session of phy\<close>

text \<open>
  The theory embeds \<^verbatim>\<open>phy/cluster/manual/session.py\<close>: the \<^verbatim>\<open>ViewManager\<close> and the
  \<^verbatim>\<open>Session\<close> class that orchestrates a Clustering, a ClusterMetadata store, a Selector and
  a GlobalHistory and refreshes the registered views.

  Python objects mutated in place become records that are passed in and returned. A method
  that may raise returns the state it leaves behind together with \<open>Some e\<close> when it raised
  \<open>e\<close> and \<open>None\<close> when it returned normally, so that a partial effect of a raising call
  stays visible in the model.
\<close>

subsection \<open>Errors and plain data\<close>

datatype error =
    ValueError
  | AssertionError
  | IndexError
  | InvalidOperation
  | UnknownCluster
  | OutOfRange

type_synonym cluster_id = int
type_synonym spike_id = int

text \<open>Sample values of waveforms, masks and probe positions are opaque to the session.\<close>

type_synonym waveform = "int list"
type_synonym mask = "int list"
type_synonym position = "int \<times> int"

datatype md_value = Text string | Number int

datatype update_kind = Load | Select | Cluster | Metadata

record update =
  added :: "cluster_id list"
  removed :: "cluster_id list"
  affected_spikes :: "spike_id list"
  kind :: update_kind

text \<open>
  What \<^verbatim>\<open>GlobalHistory.undo()\<close> and \<^verbatim>\<open>redo()\<close> hand back: an Update, or the non-fatal
  signal that there is nothing to revert or reapply. \<^verbatim>\<open>Session._update_after_cluster\<close>
  receives either in its parameter \<^verbatim>\<open>up\<close>.
\<close>

datatype up_signal = NoMoreHistory | Up update

text \<open>
  numpy indexing of an array by an array of integers, \<^verbatim>\<open>arr[spikes]\<close>: every index has to
  lie in \<open>[-n, n)\<close>, a negative one counts from the end, and an index out of bounds raises
  IndexError before anything is returned.
\<close>

definition fancy_index :: "'a list \<Rightarrow> int list \<Rightarrow> error + 'a list" where
  "fancy_index xs idx =
     (let n = int (length xs) in
      if list_all (\<lambda>i. - n \<le> i \<and> i < n) idx
      then Inr (map (\<lambda>i. xs ! nat (if i < 0 then n + i else i)) idx)
      else Inl IndexError)"

subsection \<open>Clustering\<close>

text \<open>
  Modelled from the spec: the class \<^verbatim>\<open>Clustering\<close> of \<^verbatim>\<open>phy/cluster/manual/clustering.py\<close>
  is not among the sources. The spec (4.1) gives its state, the partition and a next-id
  allocator initialised to \<open>max(existing ids) + 1\<close>, its operations merge and split with
  their validation, and the reversal data of an action: for each affected spike its
  previous cluster id, and the newly allocated id.

  The session pushes the Clustering object itself onto the history
  (\<^verbatim>\<open>self._global_history.action(self.clustering)\<close>), so the object has to know the action of
  its latest mutation: the field \<open>last_action\<close>. A fresh Clustering holds the action that
  touches no spike.
\<close>

record clustering_action =
  old_assignment :: "(spike_id \<times> cluster_id) list"
  new_cluster :: cluster_id

record clustering_state =
  spike_clusters :: "cluster_id list"
  next_id :: cluster_id
  last_action :: clustering_action

text \<open>
  Modelled from the spec: the constructor \<^verbatim>\<open>Clustering(spike_clusters)\<close>, absent from the
  sources. The partition is the given vector and the allocator starts at
  \<open>max(existing ids) + 1\<close> (at 0 when there is no spike).
\<close>

definition Clustering :: "cluster_id list \<Rightarrow> clustering_state" where
  "Clustering xs =
     (let n = (case xs of [] \<Rightarrow> 0 | x # r \<Rightarrow> fold max r x + 1) in
      \<lparr>spike_clusters = xs, next_id = n,
       last_action = \<lparr>old_assignment = [], new_cluster = n\<rparr>\<rparr>)"

text \<open>The live cluster ids are the image of the partition, in ascending order.\<close>

definition live_ids :: "cluster_id list \<Rightarrow> cluster_id list" where
  "live_ids xs = sort (remdups xs)"

definition cluster_labels :: "clustering_state \<Rightarrow> cluster_id list" where
  "cluster_labels c = live_ids (spike_clusters c)"

definition spikes_in :: "cluster_id list \<Rightarrow> cluster_id list \<Rightarrow> spike_id list" where
  "spikes_in xs cs = map int (filter (\<lambda>i. xs ! i \<in> set cs) [0..<length xs])"

definition assign :: "cluster_id list \<Rightarrow> spike_id list \<Rightarrow> cluster_id \<Rightarrow> cluster_id list" where
  "assign xs spikes k = fold (\<lambda>i ys. ys[nat i := k]) spikes xs"

definition restore :: "cluster_id list \<Rightarrow> (spike_id \<times> cluster_id) list \<Rightarrow> cluster_id list" where
  "restore xs old = fold (\<lambda>(i, k) ys. ys[nat i := k]) old xs"

definition diff_update :: "cluster_id list \<Rightarrow> cluster_id list \<Rightarrow> spike_id list \<Rightarrow> update" where
  "diff_update xs ys spikes =
     \<lparr>added = filter (\<lambda>k. k \<notin> set xs) (live_ids ys),
      removed = filter (\<lambda>k. k \<notin> set ys) (live_ids xs),
      affected_spikes = spikes,
      kind = Cluster\<rparr>"

definition reassign ::
  "clustering_state \<Rightarrow> spike_id list \<Rightarrow> update \<times> clustering_state" where
  "reassign c spikes =
     (let xs = spike_clusters c;
          k = next_id c;
          ys = assign xs spikes k
      in (diff_update xs ys spikes,
          \<lparr>spike_clusters = ys, next_id = k + 1,
           last_action = \<lparr>old_assignment = map (\<lambda>i. (i, xs ! nat i)) spikes,
                          new_cluster = k\<rparr>\<rparr>))"

text \<open>
  Modelled from the spec: \<^verbatim>\<open>Clustering.merge\<close>, absent from the sources. It requires at least
  two cluster ids, all of them live, else fails with InvalidOperation or UnknownCluster.
  Every spike of the given clusters goes to one newly allocated id.
\<close>

definition clustering_merge ::
  "clustering_state \<Rightarrow> cluster_id list \<Rightarrow> error + update \<times> clustering_state" where
  "clustering_merge c cs =
     (if length (remdups cs) < 2 then Inl InvalidOperation
      else if \<not> list_all (\<lambda>k. k \<in> set (spike_clusters c)) cs then Inl UnknownCluster
      else Inr (reassign c (spikes_in (spike_clusters c) cs)))"

text \<open>
  Modelled from the spec: \<^verbatim>\<open>Clustering.split\<close>, absent from the sources. It requires a non-empty
  set of spikes, all in range, else fails with InvalidOperation or OutOfRange. The given spikes
  go to one newly allocated id; a cluster left without spikes is no longer live.
\<close>

definition clustering_split ::
  "clustering_state \<Rightarrow> spike_id list \<Rightarrow> error + update \<times> clustering_state" where
  "clustering_split c spikes =
     (if spikes = [] then Inl InvalidOperation
      else if \<not> list_all (\<lambda>i. 0 \<le> i \<and> i < int (length (spike_clusters c))) spikes
      then Inl OutOfRange
      else Inr (reassign c (sort (remdups spikes))))"

text \<open>
  Modelled from the spec: the reversal of a ClusteringAction, absent from the sources. Undo
  gives every affected spike its previous cluster id back; redo assigns the affected spikes to
  the id the action allocated. Ids are never reused, so the allocator stays.
\<close>

definition clustering_undo ::
  "clustering_state \<Rightarrow> clustering_action \<Rightarrow> update \<times> clustering_state" where
  "clustering_undo c a =
     (let xs = spike_clusters c;
          ys = restore xs (old_assignment a)
      in (diff_update xs ys (map fst (old_assignment a)), c\<lparr>spike_clusters := ys\<rparr>))"

definition clustering_redo ::
  "clustering_state \<Rightarrow> clustering_action \<Rightarrow> update \<times> clustering_state" where
  "clustering_redo c a =
     (let xs = spike_clusters c;
          ys = assign xs (map fst (old_assignment a)) (new_cluster a)
      in (diff_update xs ys (map fst (old_assignment a)), c\<lparr>spike_clusters := ys\<rparr>))"

subsection \<open>ClusterMetadata\<close>

text \<open>
  Modelled from the spec: the class \<^verbatim>\<open>ClusterMetadata\<close> of
  \<^verbatim>\<open>phy/cluster/manual/cluster_metadata.py\<close> is not among the sources. The spec (3, 4.4)
  declares two properties with defaults, \<open>group\<close> with the default \<open>unsorted\<close> and \<open>color\<close>
  with a deterministic palette function of the cluster id, which the spec leaves open and
  the store therefore carries as the field \<open>palette\<close>. \<open>get\<close> returns the stored value or the
  default; \<open>set\<close> creates absent entries with the defaults, records the previous values and
  overwrites; an unknown property is an InvalidOperation.

  As for the Clustering, the session pushes the store itself onto the history, so the store
  keeps the action of its latest \<open>set\<close> in \<open>md_last_action\<close>.
\<close>

record metadata_action =
  md_property :: string
  md_prior :: "(cluster_id \<times> md_value) list"
  md_new :: md_value

record cluster_metadata_state =
  palette :: "cluster_id \<Rightarrow> md_value"
  md_data :: "cluster_id \<rightharpoonup> (string \<rightharpoonup> md_value)"
  md_last_action :: metadata_action

definition declared :: "string \<Rightarrow> bool" where
  "declared p = (p = ''group'' \<or> p = ''color'')"

definition default_value :: "cluster_metadata_state \<Rightarrow> string \<Rightarrow> cluster_id \<Rightarrow> md_value option" where
  "default_value md p k =
     (if p = ''group'' then Some (Text ''unsorted'')
      else if p = ''color'' then Some (palette md k)
      else None)"

definition entry :: "cluster_metadata_state \<Rightarrow> cluster_id \<Rightarrow> (string \<rightharpoonup> md_value)" where
  "entry md k = (case md_data md k of None \<Rightarrow> (\<lambda>p. default_value md p k) | Some e \<Rightarrow> e)"

text \<open>
  Modelled from the spec: \<^verbatim>\<open>ClusterMetadata.get\<close>, which the session reaches by
  \<^verbatim>\<open>self.cluster_metadata[cluster]['color']\<close>; absent from the sources. It returns the stored
  value, or the default of the property when none is stored, and fails only for a property
  that is not declared.
\<close>

definition cluster_metadata_get ::
  "cluster_metadata_state \<Rightarrow> cluster_id \<Rightarrow> string \<Rightarrow> error + md_value" where
  "cluster_metadata_get md k p =
     (case default_value md p k of
        None \<Rightarrow> Inl InvalidOperation
      | Some d \<Rightarrow> (case entry md k p of None \<Rightarrow> Inr d | Some v \<Rightarrow> Inr v))"

definition stored_value :: "cluster_metadata_state \<Rightarrow> string \<Rightarrow> cluster_id \<Rightarrow> md_value" where
  "stored_value md p k =
     (case cluster_metadata_get md k p of Inr v \<Rightarrow> v | Inl _ \<Rightarrow> Text [])"

definition write_values ::
  "cluster_metadata_state \<Rightarrow> string \<Rightarrow> (cluster_id \<times> md_value) list \<Rightarrow> cluster_metadata_state" where
  "write_values md p kvs =
     fold (\<lambda>(k, v) m. m\<lparr>md_data := (md_data m)(k \<mapsto> (entry m k)(p \<mapsto> v))\<rparr>) kvs md"

text \<open>
  Modelled from the spec: \<^verbatim>\<open>ClusterMetadata.set\<close>, absent from the sources. An unknown property
  fails with InvalidOperation before anything is written; otherwise every given cluster gets
  an entry (with the defaults, when it had none), its previous value is recorded and the new
  one written.
\<close>

definition cluster_metadata_set ::
  "cluster_metadata_state \<Rightarrow> cluster_id list \<Rightarrow> string \<Rightarrow> md_value
     \<Rightarrow> error + metadata_action \<times> cluster_metadata_state" where
  "cluster_metadata_set md cs p v =
     (if \<not> declared p then Inl InvalidOperation
      else
        (let a = \<lparr>md_property = p, md_prior = map (\<lambda>k. (k, stored_value md p k)) cs, md_new = v\<rparr>
         in Inr (a, (write_values md p (map (\<lambda>k. (k, v)) cs))\<lparr>md_last_action := a\<rparr>)))"

definition metadata_update :: "metadata_action \<Rightarrow> update" where
  "metadata_update a =
     \<lparr>added = [], removed = [], affected_spikes = [], kind = Metadata\<rparr>"

text \<open>
  Modelled from the spec: the reversal of a MetadataAction, absent from the sources. Undo
  writes the previous values back, redo writes the new value again.
\<close>

definition cluster_metadata_undo ::
  "cluster_metadata_state \<Rightarrow> metadata_action \<Rightarrow> update \<times> cluster_metadata_state" where
  "cluster_metadata_undo md a =
     (metadata_update a, write_values md (md_property a) (md_prior a))"

definition cluster_metadata_redo ::
  "cluster_metadata_state \<Rightarrow> metadata_action \<Rightarrow> update \<times> cluster_metadata_state" where
  "cluster_metadata_redo md a =
     (metadata_update a,
      write_values md (md_property a) (map (\<lambda>(k, _). (k, md_new a)) (md_prior a)))"

subsection \<open>Selector\<close>

text \<open>
  Modelled from the spec: the class \<^verbatim>\<open>Selector\<close> of \<^verbatim>\<open>phy/cluster/manual/selector.py\<close> is
  not among the sources. The spec (4.3) gives its state, the partition it reads, the selected
  cluster ids and the cap on the number of selected spikes; selecting an id that is not live
  fails with UnknownCluster; the selected spikes are those of the selected clusters, reduced
  to exactly the cap by a fixed rule when there are more. The spec leaves the rule open: here
  the spikes with the smallest indices are kept.
\<close>

record selector_state =
  sel_spike_clusters :: "cluster_id list"
  n_spikes_max :: nat
  selected_clusters :: "cluster_id list"

text \<open>
  Modelled from the spec: the constructor \<^verbatim>\<open>Selector(spike_clusters, n_spikes_max=...)\<close>, the
  setter of \<^verbatim>\<open>selected_clusters\<close> and the getter of \<^verbatim>\<open>selected_spikes\<close>, absent from the
  sources.
\<close>

definition Selector :: "cluster_id list \<Rightarrow> nat \<Rightarrow> selector_state" where
  "Selector xs n = \<lparr>sel_spike_clusters = xs, n_spikes_max = n, selected_clusters = []\<rparr>"

definition set_selected_clusters ::
  "selector_state \<Rightarrow> cluster_id list \<Rightarrow> error + selector_state" where
  "set_selected_clusters sel cs =
     (if list_all (\<lambda>k. k \<in> set (sel_spike_clusters sel)) cs
      then Inr (sel\<lparr>selected_clusters := cs\<rparr>)
      else Inl UnknownCluster)"

definition selected_spikes :: "selector_state \<Rightarrow> spike_id list" where
  "selected_spikes sel =
     take (n_spikes_max sel) (spikes_in (sel_spike_clusters sel) (selected_clusters sel))"

subsection \<open>GlobalHistory\<close>

text \<open>
  Modelled from the spec: the class \<^verbatim>\<open>GlobalHistory\<close> of \<^verbatim>\<open>phy/cluster/manual/_history.py\<close>
  is not among the sources. The spec (3, 4.2) describes one sequence of revertible actions,
  each a ClusteringAction or a MetadataAction, and a cursor. \<open>action\<close> discards what lies
  after the cursor, appends, and moves the cursor to the new length. \<open>undo\<close> returns
  NoMoreHistory when the cursor is 0 and otherwise reverts the action before the cursor and
  steps the cursor back; \<open>redo\<close> returns NoMoreHistory when the cursor is at the end and
  otherwise reapplies the action at the cursor and steps forward.

  Reverting and reapplying act on the Clustering and on the metadata store, which the Python
  history reaches through the objects pushed onto it; here both are passed in and returned.
\<close>

datatype revertible = ClusteringAction clustering_action | MetadataAction metadata_action

record global_history_state =
  actions :: "revertible list"
  cursor :: nat

text \<open>
  Modelled from the spec: the constructor \<^verbatim>\<open>GlobalHistory()\<close> and the methods \<^verbatim>\<open>action\<close>,
  \<^verbatim>\<open>undo\<close> and \<^verbatim>\<open>redo\<close>, absent from the sources. The history starts empty.
\<close>

definition GlobalHistory :: global_history_state where
  "GlobalHistory = \<lparr>actions = [], cursor = 0\<rparr>"

definition history_action :: "global_history_state \<Rightarrow> revertible \<Rightarrow> global_history_state" where
  "history_action h a =
     (let acts = take (cursor h) (actions h) @ [a]
      in \<lparr>actions = acts, cursor = length acts\<rparr>)"

definition history_undo ::
  "global_history_state \<Rightarrow> clustering_state \<Rightarrow> cluster_metadata_state
     \<Rightarrow> up_signal \<times> global_history_state \<times> clustering_state \<times> cluster_metadata_state" where
  "history_undo h c md =
     (if cursor h = 0 then (NoMoreHistory, h, c, md)
      else
        (case actions h ! (cursor h - 1) of
           ClusteringAction a \<Rightarrow>
             (case clustering_undo c a of
                (up, c') \<Rightarrow> (Up up, h\<lparr>cursor := cursor h - 1\<rparr>, c', md))
         | MetadataAction a \<Rightarrow>
             (case cluster_metadata_undo md a of
                (up, md') \<Rightarrow> (Up up, h\<lparr>cursor := cursor h - 1\<rparr>, c, md'))))"

definition history_redo ::
  "global_history_state \<Rightarrow> clustering_state \<Rightarrow> cluster_metadata_state
     \<Rightarrow> up_signal \<times> global_history_state \<times> clustering_state \<times> cluster_metadata_state" where
  "history_redo h c md =
     (if cursor h = length (actions h) then (NoMoreHistory, h, c, md)
      else
        (case actions h ! cursor h of
           ClusteringAction a \<Rightarrow>
             (case clustering_redo c a of
                (up, c') \<Rightarrow> (Up up, h\<lparr>cursor := cursor h + 1\<rparr>, c', md))
         | MetadataAction a \<Rightarrow>
             (case cluster_metadata_redo md a of
                (up, md') \<Rightarrow> (Up up, h\<lparr>cursor := cursor h + 1\<rparr>, c, md'))))"

subsection \<open>The model and the views\<close>

text \<open>
  Modelled from the spec: \<^verbatim>\<open>BaseModel\<close> of \<^verbatim>\<open>phy/io/base_model.py\<close> is not among the sources.
  It is the data-loading collaborator that supplies the initial spike-to-cluster vector, the
  metadata store and the raw waveform data; the record holds the attributes the session
  reads from it.
\<close>

record base_model =
  model_spike_clusters :: "cluster_id list"
  model_cluster_metadata :: cluster_metadata_state
  probe_positions :: "position list"
  model_waveforms :: "waveform list"
  model_masks :: "mask list"

text \<open>
  The argument of \<^verbatim>\<open>Session(model)\<close> is any Python object; \<^verbatim>\<open>isinstance(model, BaseModel)\<close>
  tells the two cases apart.
\<close>

datatype model_arg = BaseModel base_model | OtherObject

text \<open>
  Modelled from the spec: \<^verbatim>\<open>WaveformView\<close> of \<^verbatim>\<open>phy/plot/waveforms.py\<close> is not among the
  sources; views are the observers of the session. A view is known by its class
  (\<^verbatim>\<open>isinstance(view, WaveformView)\<close>), by the attributes of \<^verbatim>\<open>view.visual\<close> that the session
  writes, and by the number of times its \<^verbatim>\<open>update()\<close> has been invoked. \<^verbatim>\<open>update()\<close> takes no
  argument and is taken not to raise.
\<close>

datatype view_class = WaveformView | OtherView

record visual_state =
  vis_spike_clusters :: "cluster_id list option"
  vis_cluster_metadata :: "cluster_metadata_state option"
  vis_channel_positions :: "position list option"
  vis_waveforms :: "waveform list option"
  vis_masks :: "mask list option"
  vis_spike_labels :: "spike_id list option"

record view =
  view_class :: view_class
  visual :: visual_state
  n_updates :: nat

definition new_view :: "view_class \<Rightarrow> view" where
  "new_view k =
     \<lparr>view_class = k,
      visual = \<lparr>vis_spike_clusters = None, vis_cluster_metadata = None,
                vis_channel_positions = None, vis_waveforms = None, vis_masks = None,
                vis_spike_labels = None\<rparr>,
      n_updates = 0\<rparr>"

definition view_update :: "view \<Rightarrow> view" where
  "view_update v = v\<lparr>n_updates := n_updates v + 1\<rparr>"

subsection \<open>ViewManager\<close>

type_synonym view_manager_state = "view list"

definition ViewManager :: view_manager_state where
  "ViewManager = []"

definition register :: "view_manager_state \<Rightarrow> view \<Rightarrow> view_manager_state" where
  "register vm v = vm @ [v]"

definition views :: "view_manager_state \<Rightarrow> view list" where
  "views vm = vm"

text \<open>
  \<^verbatim>\<open>for view in self._view_manager.views: ...\<close>: the body runs on the views in order; when it
  raises on one, that view keeps what the body did to it and the views after it are not
  reached.
\<close>

fun for_views :: "(view \<Rightarrow> error option \<times> view) \<Rightarrow> view list \<Rightarrow> error option \<times> view list" where
  "for_views body [] = (None, [])"
| "for_views body (v # vs) =
     (case body v of
        (Some e, v') \<Rightarrow> (Some e, v' # vs)
      | (None, v') \<Rightarrow> (case for_views body vs of (r, vs') \<Rightarrow> (r, v' # vs')))"

text \<open>The end of each loop body: \<^verbatim>\<open>view.update()\<close>, reached unless the hook before it raised.\<close>

definition then_update :: "error option \<times> view \<Rightarrow> error option \<times> view" where
  "then_update r = (case r of (Some e, v) \<Rightarrow> (Some e, v) | (None, v) \<Rightarrow> (None, view_update v))"

subsection \<open>Session\<close>

text \<open>
  \<^verbatim>\<open>Session.__init__\<close> first creates the history and the view manager and stores the model;
  \<^verbatim>\<open>_update_after_load\<close> then creates the selector, the clustering and the metadata. The
  first three attributes form \<open>session_core\<close>, and \<open>session_state\<close> extends it by the other
  three, so that \<open>update_after_load\<close> applies to a session under construction as well as to a
  complete one.
\<close>

record session_core =
  global_history :: global_history_state
  view_manager :: view_manager_state
  model :: base_model

record session_state = session_core +
  selector :: selector_state
  clustering :: clustering_state
  cluster_metadata :: cluster_metadata_state

subsubsection \<open>Waveforms\<close>

definition update_waveforms_after_load :: "session_state \<Rightarrow> view \<Rightarrow> error option \<times> view" where
  "update_waveforms_after_load s v =
     (if view_class v \<noteq> WaveformView then (Some AssertionError, v)
      else (None,
            v\<lparr>visual := (visual v)
                \<lparr>vis_spike_clusters := Some (spike_clusters (clustering s)),
                 vis_cluster_metadata := Some (cluster_metadata s),
                 vis_channel_positions := Some (probe_positions (model s))\<rparr>\<rparr>))"

definition update_waveforms_after_select :: "session_state \<Rightarrow> view \<Rightarrow> error option \<times> view" where
  "update_waveforms_after_select s v =
     (if view_class v \<noteq> WaveformView then (Some AssertionError, v)
      else
        (let spikes = selected_spikes (selector s) in
         case fancy_index (model_waveforms (model s)) spikes of
           Inl e \<Rightarrow> (Some e, v)
         | Inr w \<Rightarrow>
             (let v1 = v\<lparr>visual := (visual v)\<lparr>vis_waveforms := Some w\<rparr>\<rparr> in
              case fancy_index (model_masks (model s)) spikes of
                Inl e \<Rightarrow> (Some e, v1)
              | Inr m \<Rightarrow>
                  (None,
                   v1\<lparr>visual := (visual v1)
                        \<lparr>vis_masks := Some m, vis_spike_labels := Some spikes\<rparr>\<rparr>))))"

text \<open>
  The body of \<^verbatim>\<open>_update_waveforms_after_cluster\<close> is its assertion alone: it receives the
  Update and does not use it yet.
\<close>

definition update_waveforms_after_cluster ::
  "session_state \<Rightarrow> view \<Rightarrow> up_signal \<Rightarrow> error option \<times> view" where
  "update_waveforms_after_cluster s v up =
     (if view_class v \<noteq> WaveformView then (Some AssertionError, v) else (None, v))"

subsubsection \<open>Controller\<close>

definition update_after_load :: "'a session_core_scheme \<Rightarrow> error option \<times> session_state" where
  "update_after_load s0 =
     (let xs = model_spike_clusters (model s0);
          s = \<lparr>global_history = global_history s0,
               view_manager = view_manager s0,
               model = model s0,
               selector = Selector xs 100,
               clustering = Clustering xs,
               cluster_metadata = model_cluster_metadata (model s0)\<rparr>
      in case for_views
                (\<lambda>v. then_update
                        (if view_class v = WaveformView then update_waveforms_after_load s v
                         else (None, v)))
                (views (view_manager s)) of
           (r, vs) \<Rightarrow> (r, s\<lparr>view_manager := vs\<rparr>))"

definition update_after_select :: "session_state \<Rightarrow> error option \<times> session_state" where
  "update_after_select s =
     (case for_views
             (\<lambda>v. then_update
                     (if view_class v = WaveformView then update_waveforms_after_select s v
                      else (None, v)))
             (views (view_manager s)) of
        (r, vs) \<Rightarrow> (r, s\<lparr>view_manager := vs\<rparr>))"

definition update_after_cluster ::
  "up_signal \<Rightarrow> bool \<Rightarrow> session_state \<Rightarrow> error option \<times> session_state" where
  "update_after_cluster up add_to_stack s =
     (let s1 = (if add_to_stack
                then s\<lparr>global_history :=
                         history_action (global_history s)
                           (ClusteringAction (last_action (clustering s)))\<rparr>
                else s)
      in case for_views
                (\<lambda>v. then_update
                        (if view_class v = WaveformView
                         then update_waveforms_after_cluster s1 v up
                         else (None, v)))
                (views (view_manager s1)) of
           (r, vs) \<Rightarrow> (r, s1\<lparr>view_manager := vs\<rparr>))"

definition Session :: "model_arg \<Rightarrow> error + session_state" where
  "Session arg =
     (case arg of
        OtherObject \<Rightarrow> Inl ValueError
      | BaseModel m \<Rightarrow>
          (case update_after_load
                  \<lparr>global_history = GlobalHistory, view_manager = ViewManager, model = m\<rparr> of
             (Some e, _) \<Rightarrow> Inl e
           | (None, s) \<Rightarrow> Inr s))"

subsubsection \<open>Public properties\<close>

fun collect :: "('a \<Rightarrow> error + 'b) \<Rightarrow> 'a list \<Rightarrow> error + 'b list" where
  "collect f [] = Inr []"
| "collect f (x # xs) =
     (case f x of
        Inl e \<Rightarrow> Inl e
      | Inr y \<Rightarrow> (case collect f xs of Inl e \<Rightarrow> Inl e | Inr ys \<Rightarrow> Inr (y # ys)))"

definition session_cluster_labels :: "session_state \<Rightarrow> cluster_id list" where
  "session_cluster_labels s = cluster_labels (clustering s)"

definition cluster_colors :: "session_state \<Rightarrow> error + md_value list" where
  "cluster_colors s =
     collect (\<lambda>cluster. cluster_metadata_get (cluster_metadata s) cluster ''color'')
       (cluster_labels (clustering s))"

subsubsection \<open>Public view methods\<close>

text \<open>
  \<^verbatim>\<open>show_waveforms\<close> creates a WaveformView, registers it and fills it by the two waveform
  hooks; the view object sits at the end of the registered views while the hooks write to it.
\<close>

definition show_waveforms :: "session_state \<Rightarrow> error option \<times> session_state" where
  "show_waveforms s =
     (let v = new_view WaveformView;
          s1 = s\<lparr>view_manager := register (view_manager s) v\<rparr>;
          at_end = (\<lambda>w. s1\<lparr>view_manager := (view_manager s1)[length (view_manager s) := w]\<rparr>)
      in case update_waveforms_after_load s1 v of
           (Some e, v1) \<Rightarrow> (Some e, at_end v1)
         | (None, v1) \<Rightarrow>
             (case update_waveforms_after_select s1 v1 of (r, v2) \<Rightarrow> (r, at_end v2)))"

subsubsection \<open>Public clustering actions\<close>

definition select :: "session_state \<Rightarrow> cluster_id list \<Rightarrow> error option \<times> session_state" where
  "select s clusters =
     (case set_selected_clusters (selector s) clusters of
        Inl e \<Rightarrow> (Some e, s)
      | Inr sel \<Rightarrow> update_after_select (s\<lparr>selector := sel\<rparr>))"

definition merge :: "session_state \<Rightarrow> cluster_id list \<Rightarrow> error option \<times> session_state" where
  "merge s clusters =
     (case clustering_merge (clustering s) clusters of
        Inl e \<Rightarrow> (Some e, s)
      | Inr (up, c) \<Rightarrow> update_after_cluster (Up up) True (s\<lparr>clustering := c\<rparr>))"

definition split :: "session_state \<Rightarrow> spike_id list \<Rightarrow> error option \<times> session_state" where
  "split s spikes =
     (case clustering_split (clustering s) spikes of
        Inl e \<Rightarrow> (Some e, s)
      | Inr (up, c) \<Rightarrow> update_after_cluster (Up up) True (s\<lparr>clustering := c\<rparr>))"

definition move ::
  "session_state \<Rightarrow> cluster_id list \<Rightarrow> md_value \<Rightarrow> error option \<times> session_state" where
  "move s clusters grp =
     (case cluster_metadata_set (cluster_metadata s) clusters ''group'' grp of
        Inl e \<Rightarrow> (Some e, s)
      | Inr (a, md) \<Rightarrow>
          (None,
           s\<lparr>cluster_metadata := md,
             global_history :=
               history_action (global_history s) (MetadataAction (md_last_action md))\<rparr>))"

definition undo :: "session_state \<Rightarrow> error option \<times> session_state" where
  "undo s =
     (case history_undo (global_history s) (clustering s) (cluster_metadata s) of
        (up, h, c, md) \<Rightarrow>
          update_after_cluster up False
            (s\<lparr>global_history := h, clustering := c, cluster_metadata := md\<rparr>))"

definition redo :: "session_state \<Rightarrow> error option \<times> session_state" where
  "redo s =
     (case history_redo (global_history s) (clustering s) (cluster_metadata s) of
        (up, h, c, md) \<Rightarrow>
          update_after_cluster up False
            (s\<lparr>global_history := h, clustering := c, cluster_metadata := md\<rparr>))"

subsection \<open>Notification of the views\<close>

text \<open>
  A view has been notified when its \<^verbatim>\<open>update()\<close> has been invoked once more. \<open>notified vs vs'\<close>
  says so of every registered view: the views after the call are the same objects, in the
  same order, each with one more invocation of \<^verbatim>\<open>update()\<close>.
\<close>

definition notified :: "view list \<Rightarrow> view list \<Rightarrow> bool" where
  "notified vs vs' =
     list_all2 (\<lambda>v v'. view_class v' = view_class v \<and> n_updates v' = Suc (n_updates v)) vs vs'"

subsection \<open>An example session\<close>

text \<open>
  The scenario of the spec: five spikes in the clusters \<open>[0, 0, 1, 1, 2]\<close>. \<open>s0\<close> is the
  session as constructed, \<open>s1\<close> has a waveform view (by \<^verbatim>\<open>show_waveforms\<close>) and one view of
  another class registered, \<open>s2\<close> is \<open>s1\<close> after merging the clusters 0 and 1, and \<open>s3\<close>
  is \<open>s2\<close> after undoing that merge.
\<close>

definition md0 :: cluster_metadata_state where
  "md0 = \<lparr>palette = (\<lambda>k. Number (k mod 8)), md_data = Map.empty,
          md_last_action = \<lparr>md_property = [], md_prior = [], md_new = Text []\<rparr>\<rparr>"

definition m0 :: base_model where
  "m0 = \<lparr>model_spike_clusters = [0, 0, 1, 1, 2], model_cluster_metadata = md0,
         probe_positions = [(0, 0)], model_waveforms = [[1], [2], [3], [4], [5]],
         model_masks = [[1], [1], [1], [1], [1]]\<rparr>"

definition s0 :: session_state where
  "s0 = snd (update_after_load
               \<lparr>global_history = GlobalHistory, view_manager = ViewManager, model = m0\<rparr>)"

definition s1 :: session_state where
  "s1 = (let s = snd (show_waveforms s0)
         in s\<lparr>view_manager := register (view_manager s) (new_view OtherView)\<rparr>)"

definition s2 :: session_state where
  "s2 = snd (merge s1 [0, 1])"

definition s3 :: session_state where
  "s3 = snd (undo s2)"

section \<open>Properties\<close>

subsection \<open>The loop over the views\<close>

lemma for_views_ok:
  "list_all (\<lambda>v. fst (body v) = None) vs \<Longrightarrow> for_views body vs = (None, map (\<lambda>v. snd (body v)) vs)"
proof (induction vs)
  case Nil
  show ?case by simp
next
  case (Cons v vs)
  obtain r v' where b: "body v = (r, v')" by (cases "body v")
  from Cons.prems b have "r = None" by simp
  with Cons b show ?case by simp
qed

lemma notified_map:
  "(\<And>v. v \<in> set vs \<Longrightarrow> view_class (f v) = view_class v \<and> n_updates (f v) = Suc (n_updates v))
     \<Longrightarrow> notified vs (map f vs)"
  by (induction vs) (simp_all add: notified_def)

lemma notified_map_update: "notified vs (map view_update vs)"
  by (rule notified_map) (simp add: view_update_def)

lemma cluster_body:
  "then_update (if view_class v = WaveformView then update_waveforms_after_cluster s v up else (None, v))
     = (None, view_update v)"
  by (simp add: then_update_def update_waveforms_after_cluster_def)

lemma update_after_cluster_eq:
  "update_after_cluster up b s =
     (None,
      (if b then s\<lparr>global_history :=
                      history_action (global_history s) (ClusteringAction (last_action (clustering s)))\<rparr>
       else s)\<lparr>view_manager := map view_update (view_manager s)\<rparr>)"
proof -
  have "for_views (\<lambda>v. then_update (if view_class v = WaveformView
            then update_waveforms_after_cluster s' v up else (None, v))) vs
        = (None, map view_update vs)" for s' vs
    by (simp add: cluster_body for_views_ok list_all_iff)
  then show ?thesis
    by (simp add: update_after_cluster_def views_def Let_def)
qed

lemma actions_history_action:
  "actions (history_action h a) = take (cursor h) (actions h) @ [a]"
  by (simp add: history_action_def Let_def)

lemma merge_ok:
  assumes "clustering_merge (clustering s) clusters = Inr (up, c)"
  shows "merge s clusters =
           (None, s\<lparr>clustering := c,
                    global_history := history_action (global_history s) (ClusteringAction (last_action c)),
                    view_manager := map view_update (view_manager s)\<rparr>)"
  using assms by (simp add: merge_def update_after_cluster_eq)

lemma split_ok:
  assumes "clustering_split (clustering s) spikes = Inr (up, c)"
  shows "split s spikes =
           (None, s\<lparr>clustering := c,
                    global_history := history_action (global_history s) (ClusteringAction (last_action c)),
                    view_manager := map view_update (view_manager s)\<rparr>)"
  using assms by (simp add: split_def update_after_cluster_eq)

subsection \<open>The example session, evaluated\<close>

lemma s0_eval:
  "s0 = \<lparr>global_history = \<lparr>actions = [], cursor = 0\<rparr>, view_manager = [], model = m0,
         selector = \<lparr>sel_spike_clusters = [0, 0, 1, 1, 2], n_spikes_max = 100, selected_clusters = []\<rparr>,
         clustering = \<lparr>spike_clusters = [0, 0, 1, 1, 2], next_id = 3,
                       last_action = \<lparr>old_assignment = [], new_cluster = 3\<rparr>\<rparr>,
         cluster_metadata = md0\<rparr>"
  by (simp add: s0_def update_after_load_def GlobalHistory_def ViewManager_def Selector_def
        Clustering_def views_def m0_def Let_def)

lemma s1_eval:
  "s1 = \<lparr>global_history = \<lparr>actions = [], cursor = 0\<rparr>,
         view_manager =
           [\<lparr>view_class = WaveformView,
             visual = \<lparr>vis_spike_clusters = Some [0, 0, 1, 1, 2], vis_cluster_metadata = Some md0,
                       vis_channel_positions = Some [(0, 0)], vis_waveforms = Some [],
                       vis_masks = Some [], vis_spike_labels = Some []\<rparr>,
             n_updates = 0\<rparr>,
            new_view OtherView],
         model = m0,
         selector = \<lparr>sel_spike_clusters = [0, 0, 1, 1, 2], n_spikes_max = 100, selected_clusters = []\<rparr>,
         clustering = \<lparr>spike_clusters = [0, 0, 1, 1, 2], next_id = 3,
                       last_action = \<lparr>old_assignment = [], new_cluster = 3\<rparr>\<rparr>,
         cluster_metadata = md0\<rparr>"
  by (simp add: s1_def s0_eval show_waveforms_def register_def new_view_def
        update_waveforms_after_load_def update_waveforms_after_select_def selected_spikes_def
        spikes_in_def fancy_index_def m0_def Let_def)

lemma upt_5: "[0..<5] = [0, 1, 2, 3, 4]"
  by (simp add: upt_rec)

lemma merge_s1:
  "clustering_merge (clustering s1) [0, 1] =
     Inr (\<lparr>added = [3], removed = [0, 1], affected_spikes = [0, 1, 2, 3], kind = Cluster\<rparr>,
          \<lparr>spike_clusters = [3, 3, 3, 3, 2], next_id = 4,
           last_action = \<lparr>old_assignment = [(0, 0), (1, 0), (2, 1), (3, 1)], new_cluster = 3\<rparr>\<rparr>)"
  by (simp add: s1_eval clustering_merge_def reassign_def spikes_in_def assign_def diff_update_def
        live_ids_def upt_5 Let_def)

lemma split_s1:
  "clustering_split (clustering s1) [4] =
     Inr (\<lparr>added = [3], removed = [2], affected_spikes = [4], kind = Cluster\<rparr>,
          \<lparr>spike_clusters = [0, 0, 1, 1, 3], next_id = 4,
           last_action = \<lparr>old_assignment = [(4, 2)], new_cluster = 3\<rparr>\<rparr>)"
  by (simp add: s1_eval clustering_split_def reassign_def assign_def diff_update_def
        live_ids_def Let_def)

subsection \<open>Merge and split\<close>

text \<open>
  What a merge or a split that the Clustering carries out does to the session: it holds the
  Clustering as the operation left it, the history has received exactly one action, placed
  right after the cursor, and \<^verbatim>\<open>update()\<close> has been invoked once on every registered view.
\<close>

lemma merge_split_effect:
  "(clustering_merge (clustering s) clusters = Inr (up, c) \<longrightarrow>
      fst (merge s clusters) = None \<and>
      clustering (snd (merge s clusters)) = c \<and>
      global_history (snd (merge s clusters)) =
        history_action (global_history s) (ClusteringAction (last_action c)) \<and>
      actions (global_history (snd (merge s clusters))) =
        take (cursor (global_history s)) (actions (global_history s)) @
          [ClusteringAction (last_action c)] \<and>
      notified (view_manager s) (view_manager (snd (merge s clusters)))) \<and>
   (clustering_split (clustering s) spikes = Inr (up', c') \<longrightarrow>
      fst (split s spikes) = None \<and>
      clustering (snd (split s spikes)) = c' \<and>
      global_history (snd (split s spikes)) =
        history_action (global_history s) (ClusteringAction (last_action c')) \<and>
      actions (global_history (snd (split s spikes))) =
        take (cursor (global_history s)) (actions (global_history s)) @
          [ClusteringAction (last_action c')] \<and>
      notified (view_manager s) (view_manager (snd (split s spikes))))"
  by (simp add: merge_ok split_ok actions_history_action notified_map_update)

subsection \<open>Select\<close>

lemma spikes_in_bounds: "i \<in> set (spikes_in xs cs) \<Longrightarrow> 0 \<le> i \<and> i < int (length xs)"
  by (auto simp: spikes_in_def)

lemma selected_spikes_bounds:
  "i \<in> set (selected_spikes sel) \<Longrightarrow> 0 \<le> i \<and> i < int (length (sel_spike_clusters sel))"
  unfolding selected_spikes_def by (blast dest: in_set_takeD spikes_in_bounds)

lemma fancy_index_ok:
  assumes "\<And>i. i \<in> set idx \<Longrightarrow> 0 \<le> i \<and> i < int (length xs)"
  shows "\<exists>ys. fancy_index xs idx = Inr ys"
proof -
  have "list_all (\<lambda>i. - int (length xs) \<le> i \<and> i < int (length xs)) idx"
    using assms by (fastforce simp: list_all_iff)
  then show ?thesis by (simp add: fancy_index_def Let_def)
qed

lemma select_body:
  assumes "length (sel_spike_clusters (selector s)) \<le> length (model_waveforms (model s))"
      and "length (sel_spike_clusters (selector s)) \<le> length (model_masks (model s))"
  shows "\<exists>v'. then_update (if view_class v = WaveformView then update_waveforms_after_select s v
                            else (None, v)) = (None, v') \<and>
              view_class v' = view_class v \<and> n_updates v' = Suc (n_updates v)"
proof -
  have b: "\<And>i. i \<in> set (selected_spikes (selector s)) \<Longrightarrow>
             0 \<le> i \<and> i < int (length (model_waveforms (model s)))"
          "\<And>i. i \<in> set (selected_spikes (selector s)) \<Longrightarrow>
             0 \<le> i \<and> i < int (length (model_masks (model s)))"
    using assms selected_spikes_bounds [of _ "selector s"] by fastforce+
  obtain w where w: "fancy_index (model_waveforms (model s)) (selected_spikes (selector s)) = Inr w"
    using fancy_index_ok [OF b(1)] by blast
  obtain m where m: "fancy_index (model_masks (model s)) (selected_spikes (selector s)) = Inr m"
    using fancy_index_ok [OF b(2)] by blast
  show ?thesis
    by (simp add: then_update_def update_waveforms_after_select_def Let_def w m view_update_def)
qed

lemma update_after_select_ok:
  assumes "length (sel_spike_clusters (selector s)) \<le> length (model_waveforms (model s))"
      and "length (sel_spike_clusters (selector s)) \<le> length (model_masks (model s))"
  shows "\<exists>vs. update_after_select s = (None, s\<lparr>view_manager := vs\<rparr>) \<and>
              notified (view_manager s) vs"
proof -
  let ?body = "\<lambda>v. then_update (if view_class v = WaveformView
                  then update_waveforms_after_select s v else (None, v))"
  have ok: "fst (?body v) = None \<and> view_class (snd (?body v)) = view_class v \<and>
            n_updates (snd (?body v)) = Suc (n_updates v)" for v
    using select_body [OF assms, of v] by auto
  have "for_views ?body (view_manager s) = (None, map (\<lambda>v. snd (?body v)) (view_manager s))"
    by (rule for_views_ok) (simp add: list_all_iff ok)
  moreover have "notified (view_manager s) (map (\<lambda>v. snd (?body v)) (view_manager s))"
    by (rule notified_map) (simp add: ok)
  ultimately show ?thesis
    by (auto simp: update_after_select_def views_def)
qed

lemma global_history_update_after_select:
  "global_history (snd (update_after_select s)) = global_history s"
  by (simp add: update_after_select_def split: prod.splits)

text \<open>
  C3. \<^verbatim>\<open>Session.select(clusters)\<close> never touches the history, whether it returns or raises.
  When the Selector accepts the clusters and the model holds a waveform and a mask for every
  spike of the partition, the call returns, the selected clusters of the Selector are the given
  ones, and \<^verbatim>\<open>update()\<close> has been invoked once on every registered view.
\<close>

theorem select_sets_selection_and_notifies:
  "global_history (snd (select s clusters)) = global_history s \<and>
   (set_selected_clusters (selector s) clusters = Inr sel \<and>
    length (sel_spike_clusters (selector s)) \<le> length (model_waveforms (model s)) \<and>
    length (sel_spike_clusters (selector s)) \<le> length (model_masks (model s)) \<longrightarrow>
      fst (select s clusters) = None \<and>
      selected_clusters (selector (snd (select s clusters))) = clusters \<and>
      notified (view_manager s) (view_manager (snd (select s clusters))))"
proof (intro conjI impI)
  show "global_history (snd (select s clusters)) = global_history s"
    by (simp add: select_def global_history_update_after_select split: sum.splits)
next
  assume h: "set_selected_clusters (selector s) clusters = Inr sel \<and>
    length (sel_spike_clusters (selector s)) \<le> length (model_waveforms (model s)) \<and>
    length (sel_spike_clusters (selector s)) \<le> length (model_masks (model s))"
  then have sel: "sel = (selector s)\<lparr>selected_clusters := clusters\<rparr>"
    by (auto simp: set_selected_clusters_def split: if_splits)
  let ?s = "s\<lparr>selector := sel\<rparr>"
  from h sel obtain vs where
    vs: "update_after_select ?s = (None, ?s\<lparr>view_manager := vs\<rparr>)" "notified (view_manager ?s) vs"
    using update_after_select_ok [of ?s] by auto
  from h have eq: "select s clusters = update_after_select ?s"
    by (simp add: select_def)
  show "fst (select s clusters) = None" by (simp add: eq vs)
  show "selected_clusters (selector (snd (select s clusters))) = clusters"
    using vs(1) by (simp add: eq sel)
  show "notified (view_manager s) (view_manager (snd (select s clusters)))"
    using vs(2) by (simp add: eq vs(1))
qed

theorem select_sets_selection_and_notifies_witness:
  "set_selected_clusters (selector s1) [0, 2] =
     Inr \<lparr>sel_spike_clusters = [0, 0, 1, 1, 2], n_spikes_max = 100, selected_clusters = [0, 2]\<rparr> \<and>
   length (sel_spike_clusters (selector s1)) \<le> length (model_waveforms (model s1)) \<and>
   length (sel_spike_clusters (selector s1)) \<le> length (model_masks (model s1)) \<and>
   global_history (snd (select s1 [0, 2])) = global_history s1 \<and>
   fst (select s1 [0, 2]) = None \<and>
   selected_clusters (selector (snd (select s1 [0, 2]))) = [0, 2] \<and>
   notified (view_manager s1) (view_manager (snd (select s1 [0, 2]))) \<and>
   length (view_manager s1) = 2"
proof -
  let ?sel = "\<lparr>sel_spike_clusters = [0, 0, 1, 1, 2], n_spikes_max = 100, selected_clusters = [0, 2]\<rparr>"
  have h: "set_selected_clusters (selector s1) [0, 2] = Inr ?sel"
    "length (sel_spike_clusters (selector s1)) \<le> length (model_waveforms (model s1))"
    "length (sel_spike_clusters (selector s1)) \<le> length (model_masks (model s1))"
    "length (view_manager s1) = 2"
    by (simp_all add: s1_eval set_selected_clusters_def m0_def)
  from select_sets_selection_and_notifies [of s1 "[0, 2]" ?sel] h
  show ?thesis by simp
qed

subsection \<open>Undo and redo\<close>

lemma history_undo_frame:
  "history_undo h c md = (up, h', c', md') \<Longrightarrow>
     actions h' = actions h \<and> cursor h' = cursor h - 1"
  by (auto simp: history_undo_def split: if_splits revertible.splits prod.splits)

lemma history_redo_frame:
  "history_redo h c md = (up, h', c', md') \<Longrightarrow>
     actions h' = actions h \<and>
     cursor h' = (if cursor h = length (actions h) then cursor h else cursor h + 1)"
  by (auto simp: history_redo_def split: if_splits revertible.splits prod.splits)

lemma undo_eq:
  "history_undo (global_history s) (clustering s) (cluster_metadata s) = (up, h, c, md) \<Longrightarrow>
     undo s = (None, s\<lparr>global_history := h, clustering := c, cluster_metadata := md,
                        view_manager := map view_update (view_manager s)\<rparr>)"
  by (simp add: undo_def update_after_cluster_eq)

lemma redo_eq:
  "history_redo (global_history s) (clustering s) (cluster_metadata s) = (up, h, c, md) \<Longrightarrow>
     redo s = (None, s\<lparr>global_history := h, clustering := c, cluster_metadata := md,
                        view_manager := map view_update (view_manager s)\<rparr>)"
  by (simp add: redo_def update_after_cluster_eq)

text \<open>
  Undo and redo return normally and leave the sequence of recorded actions as it was: undo
  moves the cursor one step back (it stays at 0), redo one step forward (it stays at the
  end). \<^verbatim>\<open>update()\<close> has been invoked once on every registered view.
\<close>

lemma undo_redo_frame:
  "fst (undo s) = None \<and>
   actions (global_history (snd (undo s))) = actions (global_history s) \<and>
   cursor (global_history (snd (undo s))) = cursor (global_history s) - 1 \<and>
   notified (view_manager s) (view_manager (snd (undo s))) \<and>
   fst (redo s) = None \<and>
   actions (global_history (snd (redo s))) = actions (global_history s) \<and>
   cursor (global_history (snd (redo s))) =
     (if cursor (global_history s) = length (actions (global_history s))
      then cursor (global_history s) else cursor (global_history s) + 1) \<and>
   notified (view_manager s) (view_manager (snd (redo s)))"
proof -
  obtain up h c md where
    u: "history_undo (global_history s) (clustering s) (cluster_metadata s) = (up, h, c, md)"
    by (cases "history_undo (global_history s) (clustering s) (cluster_metadata s)")
  obtain up' h' c' md' where
    r: "history_redo (global_history s) (clustering s) (cluster_metadata s) = (up', h', c', md')"
    by (cases "history_redo (global_history s) (clustering s) (cluster_metadata s)")
  show ?thesis
    using history_undo_frame [OF u] history_redo_frame [OF r]
    by (simp add: undo_eq [OF u] redo_eq [OF r] notified_map_update)
qed

lemma s2_eval:
  "s2 = \<lparr>global_history =
           \<lparr>actions = [ClusteringAction
                         \<lparr>old_assignment = [(0, 0), (1, 0), (2, 1), (3, 1)], new_cluster = 3\<rparr>],
            cursor = 1\<rparr>,
         view_manager = map view_update (view_manager s1),
         model = m0,
         selector = \<lparr>sel_spike_clusters = [0, 0, 1, 1, 2], n_spikes_max = 100, selected_clusters = []\<rparr>,
         clustering = \<lparr>spike_clusters = [3, 3, 3, 3, 2], next_id = 4,
                       last_action = \<lparr>old_assignment = [(0, 0), (1, 0), (2, 1), (3, 1)],
                                      new_cluster = 3\<rparr>\<rparr>,
         cluster_metadata = md0\<rparr>"
  unfolding s2_def merge_ok [OF merge_s1]
  by (simp add: s1_eval history_action_def)

text \<open>
  When the history has nothing to revert, undo returns normally and leaves the clustering,
  the metadata, the history, the selector and the model as they were, and \<^verbatim>\<open>update()\<close> is
  invoked once on every registered view; likewise redo when there is nothing to reapply.
\<close>

lemma no_more_history_frame:
  "(fst (history_undo (global_history s) (clustering s) (cluster_metadata s)) = NoMoreHistory \<longrightarrow>
      undo s = update_after_cluster NoMoreHistory False s \<and>
      fst (undo s) = None \<and>
      snd (undo s) = s\<lparr>view_manager := view_manager (snd (undo s))\<rparr> \<and>
      notified (view_manager s) (view_manager (snd (undo s)))) \<and>
   (fst (history_redo (global_history s) (clustering s) (cluster_metadata s)) = NoMoreHistory \<longrightarrow>
      redo s = update_after_cluster NoMoreHistory False s \<and>
      fst (redo s) = None \<and>
      snd (redo s) = s\<lparr>view_manager := view_manager (snd (redo s))\<rparr> \<and>
      notified (view_manager s) (view_manager (snd (redo s))))"
proof (intro conjI impI)
  assume "fst (history_undo (global_history s) (clustering s) (cluster_metadata s)) = NoMoreHistory"
  then have u: "history_undo (global_history s) (clustering s) (cluster_metadata s) =
                  (NoMoreHistory, global_history s, clustering s, cluster_metadata s)"
    by (auto simp: history_undo_def split: if_splits revertible.splits prod.splits)
  show "undo s = update_after_cluster NoMoreHistory False s"
    by (simp add: undo_def u)
  show "fst (undo s) = None" by (simp add: undo_eq [OF u])
  show "snd (undo s) = s\<lparr>view_manager := view_manager (snd (undo s))\<rparr>"
    by (simp add: undo_eq [OF u])
  show "notified (view_manager s) (view_manager (snd (undo s)))"
    by (simp add: undo_eq [OF u] notified_map_update)
next
  assume "fst (history_redo (global_history s) (clustering s) (cluster_metadata s)) = NoMoreHistory"
  then have r: "history_redo (global_history s) (clustering s) (cluster_metadata s) =
                  (NoMoreHistory, global_history s, clustering s, cluster_metadata s)"
    by (auto simp: history_redo_def split: if_splits revertible.splits prod.splits)
  show "redo s = update_after_cluster NoMoreHistory False s"
    by (simp add: redo_def r)
  show "fst (redo s) = None" by (simp add: redo_eq [OF r])
  show "snd (redo s) = s\<lparr>view_manager := view_manager (snd (redo s))\<rparr>"
    by (simp add: redo_eq [OF r])
  show "notified (view_manager s) (view_manager (snd (redo s)))"
    by (simp add: redo_eq [OF r] notified_map_update)
qed

subsection \<open>Load\<close>

lemma load_body:
  "\<exists>v'. then_update (if view_class v = WaveformView then update_waveforms_after_load s v
                       else (None, v)) = (None, v') \<and>
         view_class v' = view_class v \<and> n_updates v' = Suc (n_updates v)"
  by (simp add: then_update_def update_waveforms_after_load_def view_update_def)

lemma update_after_load_eq:
  "\<exists>vs. update_after_load s =
          (None,
           \<lparr>global_history = global_history s, view_manager = vs, model = model s,
            selector = Selector (model_spike_clusters (model s)) 100,
            clustering = Clustering (model_spike_clusters (model s)),
            cluster_metadata = model_cluster_metadata (model s)\<rparr>) \<and>
        notified (view_manager s) vs"
proof -
  let ?s = "\<lparr>global_history = global_history s, view_manager = view_manager s, model = model s,
            selector = Selector (model_spike_clusters (model s)) 100,
            clustering = Clustering (model_spike_clusters (model s)),
            cluster_metadata = model_cluster_metadata (model s)\<rparr>"
  let ?body = "\<lambda>v. then_update (if view_class v = WaveformView
                  then update_waveforms_after_load ?s v else (None, v))"
  have ok: "fst (?body v) = None \<and> view_class (snd (?body v)) = view_class v \<and>
            n_updates (snd (?body v)) = Suc (n_updates v)" for v
    using load_body [of v ?s] by auto
  have "for_views ?body (view_manager s) = (None, map (\<lambda>v. snd (?body v)) (view_manager s))"
    by (rule for_views_ok) (simp add: list_all_iff ok)
  moreover have "notified (view_manager s) (map (\<lambda>v. snd (?body v)) (view_manager s))"
    by (rule notified_map) (simp add: ok)
  ultimately show ?thesis
    by (auto simp: update_after_load_def views_def Let_def)
qed

lemma Session_eq:
  "Session (BaseModel m) =
     Inr \<lparr>global_history = GlobalHistory, view_manager = ViewManager, model = m,
          selector = Selector (model_spike_clusters m) 100,
          clustering = Clustering (model_spike_clusters m),
          cluster_metadata = model_cluster_metadata m\<rparr>"
  by (simp add: Session_def update_after_load_def ViewManager_def views_def Let_def)

text \<open>
  C9. \<^verbatim>\<open>_update_after_load\<close> constructs the Selector over the spike-to-cluster vector of the
  model, with the cap 100 and nothing selected.
\<close>

theorem selector_cap_is_100:
  "selector (snd (update_after_load s)) = Selector (model_spike_clusters (model s)) 100 \<and>
   sel_spike_clusters (selector (snd (update_after_load s))) = model_spike_clusters (model s) \<and>
   n_spikes_max (selector (snd (update_after_load s))) = 100"
proof -
  obtain vs where "update_after_load s =
          (None,
           \<lparr>global_history = global_history s, view_manager = vs, model = model s,
            selector = Selector (model_spike_clusters (model s)) 100,
            clustering = Clustering (model_spike_clusters (model s)),
            cluster_metadata = model_cluster_metadata (model s)\<rparr>)"
    using update_after_load_eq [of s] by blast
  then show ?thesis
    by (simp add: Selector_def)
qed

text \<open>
  C10. \<^verbatim>\<open>Session(model)\<close> raises ValueError, and yields no session, when the argument is not a
  BaseModel. For a BaseModel it returns a session with an empty history, an empty view
  manager, the model, and the selector, the clustering and the metadata made from the model.
\<close>

theorem Session_checks_model:
  "Session OtherObject = Inl ValueError \<and>
   Session (BaseModel m) =
     Inr \<lparr>global_history = GlobalHistory, view_manager = ViewManager, model = m,
          selector = Selector (model_spike_clusters m) 100,
          clustering = Clustering (model_spike_clusters m),
          cluster_metadata = model_cluster_metadata m\<rparr>"
  by (simp add: Session_eq) (simp add: Session_def)

subsection \<open>Failing operations\<close>

lemma cluster_metadata_set_group:
  "cluster_metadata_set md cs ''group'' g =
     Inr (\<lparr>md_property = ''group'', md_prior = map (\<lambda>k. (k, stored_value md ''group'' k)) cs,
           md_new = g\<rparr>,
          (write_values md ''group'' (map (\<lambda>k. (k, g)) cs))
            \<lparr>md_last_action :=
               \<lparr>md_property = ''group'',
                md_prior = map (\<lambda>k. (k, stored_value md ''group'' k)) cs, md_new = g\<rparr>\<rparr>)"
  by (simp add: cluster_metadata_set_def declared_def Let_def)

lemma move_eq:
  "move s cs g =
     (None,
      s\<lparr>cluster_metadata :=
          (write_values (cluster_metadata s) ''group'' (map (\<lambda>k. (k, g)) cs))
            \<lparr>md_last_action :=
               \<lparr>md_property = ''group'',
                md_prior = map (\<lambda>k. (k, stored_value (cluster_metadata s) ''group'' k)) cs,
                md_new = g\<rparr>\<rparr>,
        global_history :=
          history_action (global_history s)
            (MetadataAction
               \<lparr>md_property = ''group'',
                md_prior = map (\<lambda>k. (k, stored_value (cluster_metadata s) ''group'' k)) cs,
                md_new = g\<rparr>)\<rparr>)"
  by (simp add: move_def cluster_metadata_set_group)

text \<open>
  C7. When the Clustering rejects a merge or a split, \<^verbatim>\<open>Session.merge\<close> and \<^verbatim>\<open>Session.split\<close>
  raise the same error and the session is as before: no action is pushed, no view is
  notified, the partition and the metadata are untouched. \<^verbatim>\<open>Session.move\<close> passes the declared
  property \<open>group\<close>, which the metadata store never rejects, so it never raises.
\<close>

theorem failed_operation_changes_nothing:
  "(clustering_merge (clustering s) clusters = Inl e \<longrightarrow> merge s clusters = (Some e, s)) \<and>
   (clustering_split (clustering s) spikes = Inl e' \<longrightarrow> split s spikes = (Some e', s)) \<and>
   cluster_metadata_set (cluster_metadata s) cs ''group'' g \<noteq> Inl e'' \<and>
   fst (move s cs g) = None"
  by (simp add: merge_def split_def move_eq cluster_metadata_set_group)

theorem failed_operation_changes_nothing_witness:
  "clustering_merge (clustering s1) [0] = Inl InvalidOperation \<and>
   merge s1 [0] = (Some InvalidOperation, s1) \<and>
   clustering_merge (clustering s2) [0, 3] = Inl UnknownCluster \<and>
   merge s2 [0, 3] = (Some UnknownCluster, s2) \<and>
   clustering_split (clustering s1) [] = Inl InvalidOperation \<and>
   split s1 [] = (Some InvalidOperation, s1) \<and>
   clustering_split (clustering s2) [1, 5] = Inl OutOfRange \<and>
   split s2 [1, 5] = (Some OutOfRange, s2)"
proof -
  have h: "clustering_merge (clustering s1) [0] = Inl InvalidOperation"
    "clustering_merge (clustering s2) [0, 3] = Inl UnknownCluster"
    "clustering_split (clustering s1) [] = Inl InvalidOperation"
    "clustering_split (clustering s2) [1, 5] = Inl OutOfRange"
    by (simp_all add: s1_eval s2_eval clustering_merge_def clustering_split_def)
  from failed_operation_changes_nothing [of s1 "[0]" InvalidOperation "[]" InvalidOperation]
       failed_operation_changes_nothing [of s2 "[0, 3]" UnknownCluster "[1, 5]" OutOfRange] h
  show ?thesis by blast
qed

subsection \<open>Move\<close>

lemma s1_group_0: "stored_value (cluster_metadata s1) ''group'' 0 = Text ''unsorted''"
  by (simp add: s1_eval stored_value_def cluster_metadata_get_def default_value_def entry_def
        md0_def)

lemma get_after_write:
  "cluster_metadata_get ((write_values md ''group'' [(k, g)])\<lparr>md_last_action := a\<rparr>) k ''group'' =
     Inr g"
  by (simp add: write_values_def cluster_metadata_get_def default_value_def entry_def)

text \<open>
  C2. \<^verbatim>\<open>Session.move\<close> sets the group and pushes the action, and stops there: on the session
  \<open>s1\<close>, with two registered views, moving the cluster 0 to the group \<open>good\<close> leaves both views
  without a call of \<^verbatim>\<open>update()\<close>.
\<close>

theorem move_does_not_notify:
  "fst (move s1 [0] (Text ''good'')) = None \<and>
   cluster_metadata_get (cluster_metadata (snd (move s1 [0] (Text ''good'')))) 0 ''group'' =
     Inr (Text ''good'') \<and>
   actions (global_history (snd (move s1 [0] (Text ''good'')))) =
     [MetadataAction \<lparr>md_property = ''group'', md_prior = [(0, Text ''unsorted'')],
                      md_new = Text ''good''\<rparr>] \<and>
   view_manager (snd (move s1 [0] (Text ''good''))) = view_manager s1 \<and>
   map n_updates (view_manager s1) = [0, 0] \<and>
   \<not> notified (view_manager s1) (view_manager (snd (move s1 [0] (Text ''good''))))"
proof (intro conjI)
  show "fst (move s1 [0] (Text ''good'')) = None"
    by (simp add: move_eq)
  show "cluster_metadata_get (cluster_metadata (snd (move s1 [0] (Text ''good'')))) 0 ''group'' =
     Inr (Text ''good'')"
    by (simp add: move_eq get_after_write)
  have "cursor (global_history s1) = 0"
    by (simp add: s1_eval)
  then show "actions (global_history (snd (move s1 [0] (Text ''good'')))) =
     [MetadataAction \<lparr>md_property = ''group'', md_prior = [(0, Text ''unsorted'')],
                      md_new = Text ''good''\<rparr>]"
    by (simp add: move_eq actions_history_action s1_group_0)
  show v: "view_manager (snd (move s1 [0] (Text ''good''))) = view_manager s1"
    by (simp add: move_eq)
  show "map n_updates (view_manager s1) = [0, 0]"
    by (simp add: s1_eval new_view_def)
  show "\<not> notified (view_manager s1) (view_manager (snd (move s1 [0] (Text ''good''))))"
    unfolding v by (simp add: s1_eval new_view_def notified_def)
qed

subsection \<open>Cluster colors\<close>

lemma collect_total:
  "(\<And>x. x \<in> set xs \<Longrightarrow> f x = Inr (g x)) \<Longrightarrow> collect f xs = Inr (map g xs)"
  by (induction xs) simp_all

lemma get_color:
  "cluster_metadata_get md k ''color'' = Inr (stored_value md ''color'' k)"
  by (simp add: stored_value_def cluster_metadata_get_def default_value_def split: option.splits)

lemma get_color_default:
  "(\<forall>e. md_data md k = Some e \<longrightarrow> e ''color'' = None) \<Longrightarrow>
     cluster_metadata_get md k ''color'' = Inr (palette md k)"
  by (auto simp: cluster_metadata_get_def default_value_def entry_def split: option.splits)

text \<open>
  C8. \<^verbatim>\<open>Session.cluster_colors\<close> always returns a list, as long as
  \<^verbatim>\<open>Session.cluster_labels\<close>; its element at each index is what the metadata store gives for
  the property \<open>color\<close> of the label at that index, which is the value of the palette where
  no color is stored for the label.
\<close>

theorem cluster_colors_parallel:
  "\<exists>colors.
     cluster_colors s = Inr colors \<and>
     length colors = length (session_cluster_labels s) \<and>
     (\<forall>i < length colors.
        cluster_metadata_get (cluster_metadata s) (session_cluster_labels s ! i) ''color'' =
          Inr (colors ! i)) \<and>
     (\<forall>i < length colors.
        (\<forall>e. md_data (cluster_metadata s) (session_cluster_labels s ! i) = Some e \<longrightarrow>
               e ''color'' = None) \<longrightarrow>
        colors ! i = palette (cluster_metadata s) (session_cluster_labels s ! i))"
proof -
  let ?md = "cluster_metadata s"
  let ?colors = "map (stored_value ?md ''color'') (session_cluster_labels s)"
  have "cluster_colors s = Inr ?colors"
    unfolding cluster_colors_def session_cluster_labels_def
    by (rule collect_total) (rule get_color)
  moreover have "\<forall>i < length ?colors.
      cluster_metadata_get ?md (session_cluster_labels s ! i) ''color'' = Inr (?colors ! i)"
    by (simp add: get_color)
  moreover have "\<forall>i < length ?colors.
      (\<forall>e. md_data ?md (session_cluster_labels s ! i) = Some e \<longrightarrow> e ''color'' = None) \<longrightarrow>
      ?colors ! i = palette ?md (session_cluster_labels s ! i)"
  proof (intro allI impI)
    fix i
    assume i: "i < length ?colors"
      and unset: "\<forall>e. md_data ?md (session_cluster_labels s ! i) = Some e \<longrightarrow> e ''color'' = None"
    have "cluster_metadata_get ?md (session_cluster_labels s ! i) ''color'' =
            Inr (palette ?md (session_cluster_labels s ! i))"
      using unset by (rule get_color_default)
    then have "stored_value ?md ''color'' (session_cluster_labels s ! i) =
                 palette ?md (session_cluster_labels s ! i)"
      by (simp add: get_color)
    with i show "?colors ! i = palette ?md (session_cluster_labels s ! i)"
      by simp
  qed
  ultimately show ?thesis by simp
qed

lemma s1_labels: "session_cluster_labels s1 = [0, 1, 2]"
  by (simp add: session_cluster_labels_def cluster_labels_def live_ids_def s1_eval)

theorem cluster_colors_parallel_witness:
  "session_cluster_labels s1 = [0, 1, 2] \<and>
   cluster_colors s1 = Inr [Number 0, Number 1, Number 2] \<and>
   cluster_metadata_get (cluster_metadata s1) 0 ''color'' = Inr (Number 0) \<and>
   cluster_metadata_get (cluster_metadata s1) 1 ''color'' = Inr (Number 1) \<and>
   cluster_metadata_get (cluster_metadata s1) 2 ''color'' = Inr (Number 2) \<and>
   palette (cluster_metadata s1) 2 = Number 2"
proof -
  obtain colors where c: "cluster_colors s1 = Inr colors"
    "length colors = length (session_cluster_labels s1)"
    "\<forall>i < length colors.
        cluster_metadata_get (cluster_metadata s1) (session_cluster_labels s1 ! i) ''color'' =
          Inr (colors ! i)"
    using cluster_colors_parallel [of s1] by blast
  have g: "cluster_metadata_get (cluster_metadata s1) k ''color'' = Inr (Number (k mod 8))" for k
    by (simp add: s1_eval cluster_metadata_get_def default_value_def entry_def md0_def)
  have p: "palette (cluster_metadata s1) 2 = Number 2"
    by (simp add: s1_eval md0_def)
  from c(2) have len: "length colors = 3" by (simp add: s1_labels)
  have "colors ! 0 = Number 0" "colors ! 1 = Number 1" "colors ! 2 = Number 2"
    using c(3) [rule_format, of 0] c(3) [rule_format, of 1] c(3) [rule_format, of 2] len
    by (simp_all add: s1_labels g)
  with len have "colors = [Number 0, Number 1, Number 2]"
    by (simp add: list_eq_iff_nth_eq less_Suc_eq numeral_3_eq_3 numeral_2_eq_2)
  with c(1) show ?thesis by (simp add: s1_labels g p)
qed

subsection \<open>The Update and the views\<close>

text \<open>
  \<^verbatim>\<open>_update_after_cluster\<close> hands \<^verbatim>\<open>up\<close> to \<^verbatim>\<open>_update_waveforms_after_cluster\<close> and to nothing
  else, and that hook does not use it: what the call does to the session and to its views is
  the same for every \<^verbatim>\<open>up\<close>.
\<close>

lemma update_after_cluster_any_up:
  "update_after_cluster up b s = update_after_cluster up' b s"
  by (simp add: update_after_cluster_eq)

lemma n_updates_map_update:
  "map n_updates (map view_update vs) = map Suc (map n_updates vs)"
  by (simp add: view_update_def)

lemma s3_eval:
  "s3 = \<lparr>global_history =
           \<lparr>actions = [ClusteringAction
                         \<lparr>old_assignment = [(0, 0), (1, 0), (2, 1), (3, 1)], new_cluster = 3\<rparr>],
            cursor = 0\<rparr>,
         view_manager = map view_update (view_manager s2),
         model = m0,
         selector = \<lparr>sel_spike_clusters = [0, 0, 1, 1, 2], n_spikes_max = 100, selected_clusters = []\<rparr>,
         clustering = \<lparr>spike_clusters = [0, 0, 1, 1, 2], next_id = 4,
                       last_action = \<lparr>old_assignment = [(0, 0), (1, 0), (2, 1), (3, 1)],
                                      new_cluster = 3\<rparr>\<rparr>,
         cluster_metadata = md0\<rparr>"
proof -
  have u: "history_undo (global_history s2) (clustering s2) (cluster_metadata s2) =
      (Up \<lparr>added = [0, 1], removed = [3], affected_spikes = [0, 1, 2, 3], kind = Cluster\<rparr>,
       \<lparr>actions = [ClusteringAction
                     \<lparr>old_assignment = [(0, 0), (1, 0), (2, 1), (3, 1)], new_cluster = 3\<rparr>],
        cursor = 0\<rparr>,
       \<lparr>spike_clusters = [0, 0, 1, 1, 2], next_id = 4,
        last_action = \<lparr>old_assignment = [(0, 0), (1, 0), (2, 1), (3, 1)], new_cluster = 3\<rparr>\<rparr>,
       md0)"
    by (simp add: s2_eval history_undo_def clustering_undo_def restore_def diff_update_def
          live_ids_def Let_def)
  show ?thesis
    unfolding s3_def undo_eq [OF u] by (simp add: s2_eval)
qed

text \<open>
  C1. On the session \<open>s1\<close>, with two registered views, \<^verbatim>\<open>merge([0, 1])\<close> and \<^verbatim>\<open>split([4])\<close> do
  delegate to the Clustering, push one action and invoke \<^verbatim>\<open>update()\<close> once on every view.
  The Update of the Clustering reaches no view: the session and its views end up exactly as
  they do when \<^verbatim>\<open>_update_after_cluster\<close> is given no Update at all.
\<close>

theorem merge_split_update_not_delivered:
  "clustering_merge (clustering s1) [0, 1] =
     Inr (\<lparr>added = [3], removed = [0, 1], affected_spikes = [0, 1, 2, 3], kind = Cluster\<rparr>,
          \<lparr>spike_clusters = [3, 3, 3, 3, 2], next_id = 4,
           last_action = \<lparr>old_assignment = [(0, 0), (1, 0), (2, 1), (3, 1)], new_cluster = 3\<rparr>\<rparr>) \<and>
   fst (merge s1 [0, 1]) = None \<and>
   spike_clusters (clustering (snd (merge s1 [0, 1]))) = [3, 3, 3, 3, 2] \<and>
   actions (global_history (snd (merge s1 [0, 1]))) =
     [ClusteringAction \<lparr>old_assignment = [(0, 0), (1, 0), (2, 1), (3, 1)], new_cluster = 3\<rparr>] \<and>
   map n_updates (view_manager s1) = [0, 0] \<and>
   map n_updates (view_manager (snd (merge s1 [0, 1]))) = [1, 1] \<and>
   merge s1 [0, 1] =
     update_after_cluster
       (Up \<lparr>added = [3], removed = [0, 1], affected_spikes = [0, 1, 2, 3], kind = Cluster\<rparr>) True
       (s1\<lparr>clustering :=
             \<lparr>spike_clusters = [3, 3, 3, 3, 2], next_id = 4,
              last_action = \<lparr>old_assignment = [(0, 0), (1, 0), (2, 1), (3, 1)],
                             new_cluster = 3\<rparr>\<rparr>\<rparr>) \<and>
   merge s1 [0, 1] =
     update_after_cluster NoMoreHistory True
       (s1\<lparr>clustering :=
             \<lparr>spike_clusters = [3, 3, 3, 3, 2], next_id = 4,
              last_action = \<lparr>old_assignment = [(0, 0), (1, 0), (2, 1), (3, 1)],
                             new_cluster = 3\<rparr>\<rparr>\<rparr>) \<and>
   clustering_split (clustering s1) [4] =
     Inr (\<lparr>added = [3], removed = [2], affected_spikes = [4], kind = Cluster\<rparr>,
          \<lparr>spike_clusters = [0, 0, 1, 1, 3], next_id = 4,
           last_action = \<lparr>old_assignment = [(4, 2)], new_cluster = 3\<rparr>\<rparr>) \<and>
   fst (split s1 [4]) = None \<and>
   actions (global_history (snd (split s1 [4]))) =
     [ClusteringAction \<lparr>old_assignment = [(4, 2)], new_cluster = 3\<rparr>] \<and>
   map n_updates (view_manager (snd (split s1 [4]))) = [1, 1] \<and>
   split s1 [4] =
     update_after_cluster NoMoreHistory True
       (s1\<lparr>clustering :=
             \<lparr>spike_clusters = [0, 0, 1, 1, 3], next_id = 4,
              last_action = \<lparr>old_assignment = [(4, 2)], new_cluster = 3\<rparr>\<rparr>\<rparr>)"
proof -
  have c: "cursor (global_history s1) = 0" "map n_updates (view_manager s1) = [0, 0]"
    by (simp_all add: s1_eval new_view_def)
  have m: "merge s1 [0, 1] = update_after_cluster up True
       (s1\<lparr>clustering :=
             \<lparr>spike_clusters = [3, 3, 3, 3, 2], next_id = 4,
              last_action = \<lparr>old_assignment = [(0, 0), (1, 0), (2, 1), (3, 1)],
                             new_cluster = 3\<rparr>\<rparr>\<rparr>)" for up
    by (simp add: merge_def merge_s1 update_after_cluster_eq)
  have sp: "split s1 [4] = update_after_cluster up True
       (s1\<lparr>clustering :=
             \<lparr>spike_clusters = [0, 0, 1, 1, 3], next_id = 4,
              last_action = \<lparr>old_assignment = [(4, 2)], new_cluster = 3\<rparr>\<rparr>\<rparr>)" for up
    by (simp add: split_def split_s1 update_after_cluster_eq)
  have nm: "map n_updates (view_manager (snd (merge s1 [0, 1]))) = [1, 1]"
    "map n_updates (view_manager (snd (split s1 [4]))) = [1, 1]"
    by (simp_all add: merge_ok [OF merge_s1] split_ok [OF split_s1] n_updates_map_update c(2)
          del: map_map)
  have r: "fst (merge s1 [0, 1]) = None"
    "spike_clusters (clustering (snd (merge s1 [0, 1]))) = [3, 3, 3, 3, 2]"
    "actions (global_history (snd (merge s1 [0, 1]))) =
       [ClusteringAction \<lparr>old_assignment = [(0, 0), (1, 0), (2, 1), (3, 1)], new_cluster = 3\<rparr>]"
    "fst (split s1 [4]) = None"
    "actions (global_history (snd (split s1 [4]))) =
       [ClusteringAction \<lparr>old_assignment = [(4, 2)], new_cluster = 3\<rparr>]"
    by (simp_all add: merge_ok [OF merge_s1] split_ok [OF split_s1] actions_history_action c)
  show ?thesis
    by (intro conjI merge_s1 split_s1 m sp nm r c(2))
qed

text \<open>
  C4. On the session \<open>s2\<close>, whose history holds one merge, \<^verbatim>\<open>undo()\<close> leaves the recorded
  actions as they were, moves the cursor back and invokes \<^verbatim>\<open>update()\<close> once on every view; so
  does \<^verbatim>\<open>redo()\<close> on \<open>s3\<close>, moving the cursor forward. The Update the history returns reaches
  no view: the session and its views end up exactly as they do when
  \<^verbatim>\<open>_update_after_cluster\<close> is given no Update at all.
\<close>

theorem undo_redo_update_not_delivered:
  "fst (history_undo (global_history s2) (clustering s2) (cluster_metadata s2)) =
     Up \<lparr>added = [0, 1], removed = [3], affected_spikes = [0, 1, 2, 3], kind = Cluster\<rparr> \<and>
   fst (undo s2) = None \<and>
   actions (global_history (snd (undo s2))) = actions (global_history s2) \<and>
   cursor (global_history s2) = 1 \<and>
   cursor (global_history (snd (undo s2))) = 0 \<and>
   map n_updates (view_manager s2) = [1, 1] \<and>
   map n_updates (view_manager (snd (undo s2))) = [2, 2] \<and>
   undo s2 =
     update_after_cluster NoMoreHistory False
       (s2\<lparr>global_history := (global_history s2)\<lparr>cursor := 0\<rparr>,
           clustering := (clustering s2)\<lparr>spike_clusters := [0, 0, 1, 1, 2]\<rparr>\<rparr>) \<and>
   fst (history_redo (global_history s3) (clustering s3) (cluster_metadata s3)) =
     Up \<lparr>added = [3], removed = [0, 1], affected_spikes = [0, 1, 2, 3], kind = Cluster\<rparr> \<and>
   fst (redo s3) = None \<and>
   actions (global_history (snd (redo s3))) = actions (global_history s3) \<and>
   cursor (global_history s3) = 0 \<and>
   cursor (global_history (snd (redo s3))) = 1 \<and>
   map n_updates (view_manager (snd (redo s3))) = [3, 3] \<and>
   redo s3 =
     update_after_cluster NoMoreHistory False
       (s3\<lparr>global_history := (global_history s3)\<lparr>cursor := 1\<rparr>,
           clustering := (clustering s3)\<lparr>spike_clusters := [3, 3, 3, 3, 2]\<rparr>\<rparr>)"
proof -
  let ?a = "ClusteringAction \<lparr>old_assignment = [(0, 0), (1, 0), (2, 1), (3, 1)], new_cluster = 3\<rparr>"
  have u: "history_undo (global_history s2) (clustering s2) (cluster_metadata s2) =
      (Up \<lparr>added = [0, 1], removed = [3], affected_spikes = [0, 1, 2, 3], kind = Cluster\<rparr>,
       (global_history s2)\<lparr>cursor := 0\<rparr>,
       (clustering s2)\<lparr>spike_clusters := [0, 0, 1, 1, 2]\<rparr>,
       cluster_metadata s2)"
    by (simp add: s2_eval history_undo_def clustering_undo_def restore_def diff_update_def
          live_ids_def Let_def)
  have r: "history_redo (global_history s3) (clustering s3) (cluster_metadata s3) =
      (Up \<lparr>added = [3], removed = [0, 1], affected_spikes = [0, 1, 2, 3], kind = Cluster\<rparr>,
       (global_history s3)\<lparr>cursor := 1\<rparr>,
       (clustering s3)\<lparr>spike_clusters := [3, 3, 3, 3, 2]\<rparr>,
       cluster_metadata s3)"
    by (simp add: s3_eval history_redo_def clustering_redo_def assign_def diff_update_def
          live_ids_def Let_def)
  have v: "map n_updates (view_manager s2) = [1, 1]" "map n_updates (view_manager s3) = [2, 2]"
    by (simp_all add: s3_eval s2_eval s1_eval new_view_def view_update_def)
  have c: "cursor (global_history s2) = 1" "cursor (global_history s3) = 0"
    by (simp_all add: s2_eval s3_eval)
  have 1: "fst (history_undo (global_history s2) (clustering s2) (cluster_metadata s2)) =
     Up \<lparr>added = [0, 1], removed = [3], affected_spikes = [0, 1, 2, 3], kind = Cluster\<rparr>"
    by (simp add: u)
  have 2: "fst (history_redo (global_history s3) (clustering s3) (cluster_metadata s3)) =
     Up \<lparr>added = [3], removed = [0, 1], affected_spikes = [0, 1, 2, 3], kind = Cluster\<rparr>"
    by (simp add: r)
  have 3: "undo s2 =
     update_after_cluster NoMoreHistory False
       (s2\<lparr>global_history := (global_history s2)\<lparr>cursor := 0\<rparr>,
           clustering := (clustering s2)\<lparr>spike_clusters := [0, 0, 1, 1, 2]\<rparr>\<rparr>)"
    by (simp add: undo_def u update_after_cluster_eq)
  have 4: "redo s3 =
     update_after_cluster NoMoreHistory False
       (s3\<lparr>global_history := (global_history s3)\<lparr>cursor := 1\<rparr>,
           clustering := (clustering s3)\<lparr>spike_clusters := [3, 3, 3, 3, 2]\<rparr>\<rparr>)"
    by (simp add: redo_def r update_after_cluster_eq)
  have 5: "fst (undo s2) = None" "actions (global_history (snd (undo s2))) = actions (global_history s2)"
    "cursor (global_history (snd (undo s2))) = 0"
    "fst (redo s3) = None" "actions (global_history (snd (redo s3))) = actions (global_history s3)"
    "cursor (global_history (snd (redo s3))) = 1"
    by (simp_all add: undo_eq [OF u] redo_eq [OF r])
  have 6: "map n_updates (view_manager (snd (undo s2))) = [2, 2]"
    "map n_updates (view_manager (snd (redo s3))) = [3, 3]"
    by (simp_all add: undo_eq [OF u] redo_eq [OF r] n_updates_map_update v del: map_map)
  show ?thesis
    by (intro conjI 1 2 3 4 5 6 v(1) c)
qed

text \<open>
  C5. On the session \<open>s1\<close>, whose history is empty, \<^verbatim>\<open>undo()\<close> gets NoMoreHistory from the
  history, returns normally and changes nothing but the views, and so does \<^verbatim>\<open>redo()\<close> on
  \<open>s2\<close>, whose cursor is at the end. No status reaches a view: \<^verbatim>\<open>update()\<close> is invoked on
  every view, and the session and its views end up exactly as they do when
  \<^verbatim>\<open>_update_after_cluster\<close> is given the Update of a merge.
\<close>

theorem no_op_status_not_reported:
  "fst (history_undo (global_history s1) (clustering s1) (cluster_metadata s1)) = NoMoreHistory \<and>
   fst (undo s1) = None \<and>
   snd (undo s1) = s1\<lparr>view_manager := view_manager (snd (undo s1))\<rparr> \<and>
   map n_updates (view_manager s1) = [0, 0] \<and>
   map n_updates (view_manager (snd (undo s1))) = [1, 1] \<and>
   undo s1 =
     update_after_cluster
       (Up \<lparr>added = [3], removed = [0, 1], affected_spikes = [0, 1, 2, 3], kind = Cluster\<rparr>)
       False s1 \<and>
   fst (history_redo (global_history s2) (clustering s2) (cluster_metadata s2)) = NoMoreHistory \<and>
   fst (redo s2) = None \<and>
   snd (redo s2) = s2\<lparr>view_manager := view_manager (snd (redo s2))\<rparr> \<and>
   map n_updates (view_manager s2) = [1, 1] \<and>
   map n_updates (view_manager (snd (redo s2))) = [2, 2] \<and>
   redo s2 =
     update_after_cluster
       (Up \<lparr>added = [3], removed = [0, 1], affected_spikes = [0, 1, 2, 3], kind = Cluster\<rparr>)
       False s2"
proof -
  have u: "history_undo (global_history s1) (clustering s1) (cluster_metadata s1) =
             (NoMoreHistory, global_history s1, clustering s1, cluster_metadata s1)"
    by (simp add: s1_eval history_undo_def)
  have r: "history_redo (global_history s2) (clustering s2) (cluster_metadata s2) =
             (NoMoreHistory, global_history s2, clustering s2, cluster_metadata s2)"
    by (simp add: s2_eval history_redo_def)
  have v: "map n_updates (view_manager s1) = [0, 0]" "map n_updates (view_manager s2) = [1, 1]"
    by (simp_all add: s2_eval s1_eval new_view_def view_update_def)
  have 1: "fst (history_undo (global_history s1) (clustering s1) (cluster_metadata s1)) = NoMoreHistory"
    "fst (history_redo (global_history s2) (clustering s2) (cluster_metadata s2)) = NoMoreHistory"
    by (simp_all add: u r)
  have 2: "undo s1 = update_after_cluster up False s1" "redo s2 = update_after_cluster up False s2"
    for up
    by (simp_all add: undo_def redo_def u r update_after_cluster_eq)
  have 3: "fst (undo s1) = None" "snd (undo s1) = s1\<lparr>view_manager := view_manager (snd (undo s1))\<rparr>"
    "fst (redo s2) = None" "snd (redo s2) = s2\<lparr>view_manager := view_manager (snd (redo s2))\<rparr>"
    by (simp_all add: undo_eq [OF u] redo_eq [OF r])
  have 4: "map n_updates (view_manager (snd (undo s1))) = [1, 1]"
    "map n_updates (view_manager (snd (redo s2))) = [2, 2]"
    by (simp_all add: undo_eq [OF u] redo_eq [OF r] n_updates_map_update v del: map_map)
  show ?thesis
    by (intro conjI 1 2 3 4 v)
qed

subsection \<open>Loading\<close>



end
